theory Spec2Isabelle
  imports Main
begin

section \<open>The Condor query oracle (condor\_oracle.py)\<close>

text \<open>
  The module builds, with the circuit library qiskit, a 17-wire circuit that flips an
  ancilla wire exactly when the 16 input wires hold a fixed secret pattern. The library
  is not part of the repository; the part of it the module calls is modelled below, on
  basis states only (an assignment of a boolean to every wire), which is where every
  gate the module uses (X, multi-controlled X) acts as a function on such assignments.
\<close>

subsection \<open>The circuit library: data\<close>

text \<open>
  Modelled from the spec: the circuit description of the library (section 6, consumed
  collaborator). An operation is one of the two library gates the module appends (the
  complement gate, and the controlled complement with its number of control wires), or a
  custom gate made by \<open>to_gate\<close>: its name, its label, its number of wires and its
  definition (the instructions of the circuit it was made from). An instruction is an
  operation with the wires it is applied to, in order; a circuit has a number of wires,
  a name and a list of instructions.
\<close>

datatype operation =
    XGate
  | MCXGate nat
  | Gate (gate_name: string) (gate_label: string) (gate_num_qubits: nat)
      (gate_definition: "(operation \<times> nat list) list")

type_synonym instruction = "operation \<times> nat list"

record QuantumCircuit =
  num_qubits :: nat
  name :: string
  data :: "instruction list"

text \<open>The exception of the library that the calls of the module can raise.\<close>

datatype error = CircuitError

text \<open>
  Circuits are mutable objects: \<open>qc.x(i)\<close> changes \<open>qc\<close> in place. The store
  is the list of the circuit objects allocated so far, a reference is an index into it,
  and a constructor call allocates at the end of the list.
\<close>

type_synonym ref = nat
type_synonym heap = "QuantumCircuit list"

subsection \<open>The circuit library: operations\<close>

text \<open>Modelled from the spec: the number of wires an operation acts on.\<close>

fun op_num_qubits :: "operation \<Rightarrow> nat" where
  "op_num_qubits XGate = 1"
| "op_num_qubits (MCXGate k) = k + 1"
| "op_num_qubits (Gate nm lb n defn) = n"

text \<open>
  Modelled from the spec: the library primitive (a), allocating a wire-indexed circuit.
  \<open>QuantumCircuit(n, name=nm)\<close> allocates a new circuit object with \<open>n\<close> wires and
  no instruction.
\<close>

definition QuantumCircuit_init :: "nat \<Rightarrow> string \<Rightarrow> heap \<Rightarrow> ref \<times> heap" where
  "QuantumCircuit_init n nm h = (length h, h @ [\<lparr>num_qubits = n, name = nm, data = []\<rparr>])"

text \<open>
  Modelled from the spec: the library primitive (e), appending an operation to a circuit.
  \<open>qc.append(op, qargs)\<close> raises when a wire index is out of range, when a wire is
  named twice, or when the number of wires is not the operation's; otherwise the
  instruction is added at the end of the circuit object. A reference that denotes no
  object cannot arise in Python; the model refuses it rather than leave the result open.
\<close>

definition QuantumCircuit_append ::
  "ref \<Rightarrow> operation \<Rightarrow> nat list \<Rightarrow> heap \<Rightarrow> error + heap" where
  "QuantumCircuit_append qc gate qargs h =
     (if \<not> qc < length h then Inl CircuitError
      else if \<not> list_all (\<lambda>q. q < num_qubits (h ! qc)) qargs then Inl CircuitError
      else if \<not> distinct qargs then Inl CircuitError
      else if length qargs \<noteq> op_num_qubits gate then Inl CircuitError
      else Inr (h[qc := (h ! qc)\<lparr>data := data (h ! qc) @ [(gate, qargs)]\<rparr>]))"

text \<open>
  Modelled from the spec: the library primitive (b), a complement gate on one wire.
\<close>

definition QuantumCircuit_x :: "ref \<Rightarrow> nat \<Rightarrow> heap \<Rightarrow> error + heap" where
  "QuantumCircuit_x qc qubit h = QuantumCircuit_append qc XGate [qubit] h"

text \<open>
  Modelled from the spec: the library primitive (c), a multi-input controlled-complement
  gate with a list of control wires and one target wire: the gate is appended on the
  control wires followed by the target wire.
\<close>

definition QuantumCircuit_mcx :: "ref \<Rightarrow> nat list \<Rightarrow> nat \<Rightarrow> heap \<Rightarrow> error + heap" where
  "QuantumCircuit_mcx qc control_qubits target_qubit h =
     QuantumCircuit_append qc (MCXGate (length control_qubits))
       (control_qubits @ [target_qubit]) h"

text \<open>
  Modelled from the spec: the library primitive (d), converting a gate sequence into a
  single reusable named unit. The gate takes the name and the width of the circuit and a
  copy of its instructions.
\<close>

definition QuantumCircuit_to_gate :: "ref \<Rightarrow> string \<Rightarrow> heap \<Rightarrow> operation" where
  "QuantumCircuit_to_gate qc label h =
     Gate (name (h ! qc)) label (num_qubits (h ! qc)) (data (h ! qc))"

text \<open>The assignment \<open>gate.name = nm\<close> to a custom gate.\<close>

fun set_name :: "operation \<Rightarrow> string \<Rightarrow> operation" where
  "set_name (Gate nm lb n defn) nm' = Gate nm' lb n defn"
| "set_name gate nm' = gate"

text \<open>Modelled from the spec: \<open>qc.qubits\<close>, all wires of a circuit, in order.\<close>

definition QuantumCircuit_qubits :: "ref \<Rightarrow> heap \<Rightarrow> nat list" where
  "QuantumCircuit_qubits qc h = [0..<num_qubits (h ! qc)]"

subsection \<open>The circuit library: action on basis states\<close>

text \<open>
  Modelled from the spec: the glossary's meaning of the gates. A complement gate flips
  the value of its wire; a multi-input controlled-complement gate flips its target (its
  last wire) iff all its control wires hold 1; a custom gate acts as its definition does,
  on the wires it is applied to.
\<close>

definition gather :: "nat list \<Rightarrow> bool list \<Rightarrow> bool list" where
  "gather qargs s = map (\<lambda>q. s ! q) qargs"

fun scatter :: "nat list \<Rightarrow> bool list \<Rightarrow> bool list \<Rightarrow> bool list" where
  "scatter (q # qargs) (b # bs) s = scatter qargs bs (s[q := b])"
| "scatter qargs bs s = s"

fun op_action :: "operation \<Rightarrow> bool list \<Rightarrow> bool list" where
  "op_action XGate bs = map Not bs"
| "op_action (MCXGate k) bs =
     (if list_all (\<lambda>b. b) (take k bs) then bs[k := \<not> bs ! k] else bs)"
| "op_action (Gate nm lb n defn) bs =
     fold (\<lambda>(gate, qargs) s. scatter qargs (op_action gate (gather qargs s)) s) defn bs"

definition instruction_action :: "instruction \<Rightarrow> bool list \<Rightarrow> bool list" where
  "instruction_action ins s =
     scatter (snd ins) (op_action (fst ins) (gather (snd ins) s)) s"

text \<open>
  Applying a circuit to a basis state: the state has one value per wire of the circuit.
\<close>

definition apply_circuit :: "QuantumCircuit \<Rightarrow> bool list \<Rightarrow> bool list option" where
  "apply_circuit qc s =
     (if length s = num_qubits qc then Some (fold instruction_action (data qc) s) else None)"

subsection \<open>The module\<close>

text \<open>
  The two constants of the module (lines 8 and 12):
  \<^verbatim>\<open>N_CONFIG_BITS = 16\<close> and \<^verbatim>\<open>SECRET_BITSTRING = "1011101011010101"\<close>.
  The functions read them as globals; the model passes them as a record, so that a
  module with another pattern literal can be stated.
\<close>

record module_globals =
  N_CONFIG_BITS :: nat
  SECRET_BITSTRING :: string

text \<open>
  Loading the module runs its body: the import, the two assignments, the two function
  definitions and the export list. None of them checks the pattern and none can raise
  on it. The pattern literal is the parameter; \<open>condor_oracle\<close> is the module as it
  is written.
\<close>

definition load_module :: "string \<Rightarrow> error + module_globals" where
  "load_module secret = Inr \<lparr>N_CONFIG_BITS = 16, SECRET_BITSTRING = secret\<rparr>"

definition condor_oracle :: module_globals where
  "condor_oracle = \<lparr>N_CONFIG_BITS = 16, SECRET_BITSTRING = ''1011101011010101''\<rparr>"

text \<open>
  A \<open>for\<close> loop whose body changes the store and may raise: the first exception ends
  the loop.
\<close>

fun for_each :: "'a list \<Rightarrow> ('a \<Rightarrow> heap \<Rightarrow> error + heap) \<Rightarrow> heap \<Rightarrow> error + heap" where
  "for_each [] body h = Inr h"
| "for_each (i # rest) body h =
     (case body i h of Inl e \<Rightarrow> Inl e | Inr h' \<Rightarrow> for_each rest body h')"

text \<open>
  \<open>_build_internal_condor_oracle\<close> (lines 19 to 56):
  \<^verbatim>\<open>n = N_CONFIG_BITS\<close>,
  \<^verbatim>\<open>qc = QuantumCircuit(n + 1, name="Uf_condor_internal")\<close>,
  \<^verbatim>\<open>controls = list(range(n))\<close>, \<^verbatim>\<open>anc = n\<close>,
  \<^verbatim>\<open>zeros = [i for i, b in enumerate(SECRET_BITSTRING) if b == "0"]\<close>,
  then \<^verbatim>\<open>for i in zeros: qc.x(i)\<close>, \<^verbatim>\<open>qc.mcx(controls, anc)\<close>,
  \<^verbatim>\<open>for i in zeros: qc.x(i)\<close> and \<^verbatim>\<open>return qc\<close>.
\<close>

definition build_internal_condor_oracle ::
  "module_globals \<Rightarrow> heap \<Rightarrow> error + (ref \<times> heap)" where
  "build_internal_condor_oracle g h0 =
     (let n = N_CONFIG_BITS g;
          (qc, h1) = QuantumCircuit_init (n + 1) ''Uf_condor_internal'' h0;
          controls = [0..<n];
          anc = n;
          zeros = [i. (i, b) \<leftarrow> enumerate 0 (SECRET_BITSTRING g), b = CHR ''0'']
      in case for_each zeros (\<lambda>i. QuantumCircuit_x qc i) h1 of Inl e \<Rightarrow> Inl e | Inr h2 \<Rightarrow>
         (case QuantumCircuit_mcx qc controls anc h2 of Inl e \<Rightarrow> Inl e | Inr h3 \<Rightarrow>
         (case for_each zeros (\<lambda>i. QuantumCircuit_x qc i) h3 of Inl e \<Rightarrow> Inl e | Inr h4 \<Rightarrow>
          Inr (qc, h4))))"

text \<open>
  \<open>build_Uf_condor\<close> (lines 63 to 88):
  \<^verbatim>\<open>internal = _build_internal_condor_oracle()\<close>,
  \<^verbatim>\<open>Uf_gate = internal.to_gate(label=r"$U_f$")\<close>,
  \<^verbatim>\<open>Uf_gate.name = "Uf_condor"\<close>,
  \<^verbatim>\<open>wrapper = QuantumCircuit(N_CONFIG_BITS + 1, name="Uf_condor")\<close>,
  \<^verbatim>\<open>wrapper.append(Uf_gate, wrapper.qubits)\<close> and \<^verbatim>\<open>return wrapper\<close>.
\<close>

definition build_Uf_condor :: "module_globals \<Rightarrow> heap \<Rightarrow> error + (ref \<times> heap)" where
  "build_Uf_condor g h0 =
     (case build_internal_condor_oracle g h0 of Inl e \<Rightarrow> Inl e | Inr (internal, h1) \<Rightarrow>
        (let Uf_gate = QuantumCircuit_to_gate internal ''$U_f$'' h1;
             Uf_gate = set_name Uf_gate ''Uf_condor'';
             (wrapper, h2) = QuantumCircuit_init (N_CONFIG_BITS g + 1) ''Uf_condor'' h1
         in case QuantumCircuit_append wrapper Uf_gate (QuantumCircuit_qubits wrapper h2) h2 of
              Inl e \<Rightarrow> Inl e
            | Inr h3 \<Rightarrow> Inr (wrapper, h3)))"

subsection \<open>What the spec says the circuit is\<close>

text \<open>
  The bits of a pattern string: wire \<open>i\<close> holds 1 iff character \<open>i\<close> is \<open>1\<close>.
\<close>

definition pattern_bits :: "string \<Rightarrow> bool list" where
  "pattern_bits secret = map (\<lambda>b. b = CHR ''1'') secret"

text \<open>
  The spec's steps 2 to 4, in its words: the indices whose pattern character is \<open>0\<close>;
  a complement gate on each of them, one controlled complement on all \<open>n\<close> input wires
  targeting wire \<open>n\<close>, and the same complement gates again.
\<close>

definition zero_positions :: "string \<Rightarrow> nat list" where
  "zero_positions secret = filter (\<lambda>i. secret ! i = CHR ''0'') [0..<length secret]"

definition pattern_match_sequence :: "nat \<Rightarrow> nat list \<Rightarrow> instruction list" where
  "pattern_match_sequence n zs =
     map (\<lambda>i. (XGate, [i])) zs @ [(MCXGate n, [0..<n] @ [n])] @ map (\<lambda>i. (XGate, [i])) zs"

text \<open>
  The two circuit objects a call makes, as the spec describes them: the internal circuit
  with the gate sequence, and (step 5) the circuit that holds one application of the
  gate made from it, across all wires.
\<close>

definition internal_circuit :: "string \<Rightarrow> QuantumCircuit" where
  "internal_circuit secret =
     \<lparr>num_qubits = 17, name = ''Uf_condor_internal'',
      data = pattern_match_sequence 16 (zero_positions secret)\<rparr>"

definition boxed_circuit :: "string \<Rightarrow> QuantumCircuit" where
  "boxed_circuit secret =
     \<lparr>num_qubits = 17, name = ''Uf_condor'',
      data = [(Gate ''Uf_condor'' ''$U_f$'' 17
                 (pattern_match_sequence 16 (zero_positions secret)), [0..<17])]\<rparr>"

section \<open>Properties\<close>

subsection \<open>The construction, step by step\<close>

lemma for_each_x:
  "qc < length h \<Longrightarrow>
   for_each zs (\<lambda>i. QuantumCircuit_x qc i) h =
     (if list_all (\<lambda>i. i < num_qubits (h ! qc)) zs
      then Inr (h[qc := (h ! qc)\<lparr>data := data (h ! qc) @ map (\<lambda>i. (XGate, [i])) zs\<rparr>])
      else Inl CircuitError)"
proof (induction zs arbitrary: h)
  case Nil
  then show ?case by simp
next
  case (Cons z zs)
  then show ?case
    by (simp add: QuantumCircuit_x_def QuantumCircuit_append_def)
qed

lemma zeros_comprehension:
  "[i. (i, b) \<leftarrow> enumerate 0 s, b = CHR ''0''] = zero_positions s"
proof (induction s rule: rev_induct)
  case Nil
  then show ?case by (simp add: zero_positions_def)
next
  case (snoc c s)
  have "filter (\<lambda>i. (s @ [c]) ! i = CHR ''0'') [0..<length s]
      = filter (\<lambda>i. s ! i = CHR ''0'') [0..<length s]"
    by (rule filter_cong) (simp_all add: nth_append)
  with snoc show ?case
    by (simp add: enumerate_append_eq zero_positions_def)
qed

lemma mcx_16:
  "num_qubits c = 17 \<Longrightarrow>
   QuantumCircuit_mcx (length h) [0..<16] 16 (h @ [c]) =
     Inr (h @ [c\<lparr>data := data c @ [(MCXGate 16, [0..<16] @ [16])]\<rparr>])"
  by (simp add: QuantumCircuit_mcx_def QuantumCircuit_append_def list_all_iff)

lemma build_internal_eval:
  "build_internal_condor_oracle \<lparr>N_CONFIG_BITS = 16, SECRET_BITSTRING = s\<rparr> h =
     (if list_all (\<lambda>i. i < 17) (zero_positions s)
      then Inr (length h, h @ [internal_circuit s])
      else Inl CircuitError)"
  by (simp add: build_internal_condor_oracle_def QuantumCircuit_init_def zeros_comprehension
      for_each_x mcx_16 pattern_match_sequence_def internal_circuit_def Let_def)

lemma build_Uf_condor_eval:
  "build_Uf_condor \<lparr>N_CONFIG_BITS = 16, SECRET_BITSTRING = s\<rparr> h =
     (if list_all (\<lambda>i. i < 17) (zero_positions s)
      then Inr (Suc (length h), h @ [internal_circuit s, boxed_circuit s])
      else Inl CircuitError)"
  by (simp add: build_Uf_condor_def build_internal_eval QuantumCircuit_init_def
      QuantumCircuit_to_gate_def QuantumCircuit_qubits_def QuantumCircuit_append_def
      internal_circuit_def boxed_circuit_def nth_append list_update_append list_all_iff)

lemma zero_positions_secret:
  "zero_positions ''1011101011010101'' = [1, 5, 7, 10, 12, 14]"
  by (simp add: zero_positions_def upt_rec)

lemma secret_of_condor_oracle:
  "SECRET_BITSTRING condor_oracle = ''1011101011010101''"
  by (simp add: condor_oracle_def)

lemma build_internal_condor:
  "build_internal_condor_oracle condor_oracle h =
     Inr (length h, h @ [internal_circuit ''1011101011010101''])"
  by (simp only: condor_oracle_def build_internal_eval zero_positions_secret) simp

lemma build_Uf_condor_condor:
  "build_Uf_condor condor_oracle h =
     Inr (Suc (length h),
          h @ [internal_circuit ''1011101011010101'', boxed_circuit ''1011101011010101''])"
  by (simp only: condor_oracle_def build_Uf_condor_eval zero_positions_secret) simp

lemma returned_circuit:
  "(h @ [c, w]) ! Suc (length h) = w"
  by (simp add: nth_append)

subsection \<open>The action of the circuit on basis states\<close>

lemma upt17: "[0..<17] = [0,1,2,3,4,5,6,7,8,9,10,11,12,13,14,15,16]"
  by (simp add: upt_rec)

lemma upt16: "[0..<16] = [0,1,2,3,4,5,6,7,8,9,10,11,12,13,14,15]"
  by (simp add: upt_rec)

lemma internal_action:
  "fold instruction_action (pattern_match_sequence 16 [1, 5, 7, 10, 12, 14])
     [x0,x1,x2,x3,x4,x5,x6,x7,x8,x9,x10,x11,x12,x13,x14,x15,y]
   = [x0,x1,x2,x3,x4,x5,x6,x7,x8,x9,x10,x11,x12,x13,x14,x15,
      y \<noteq> (x0 \<and> \<not> x1 \<and> x2 \<and> x3 \<and> x4 \<and> \<not> x5 \<and> x6 \<and> \<not> x7 \<and> x8 \<and> x9 \<and> \<not> x10 \<and> x11 \<and> \<not> x12 \<and> x13 \<and> \<not> x14 \<and> x15)]"
  by (simp add: pattern_match_sequence_def instruction_action_def gather_def upt16)

lemma gate_action:
  "op_action (Gate nm lb n defn) bs = fold instruction_action defn bs"
proof -
  have "(\<lambda>(gate, qargs) s. scatter qargs (op_action gate (gather qargs s)) s) = instruction_action"
    by (rule ext)+ (simp add: instruction_action_def split_def)
  then show ?thesis by simp
qed

lemma length_16_cases:
  "length (x :: 'a list) = 16 \<Longrightarrow>
   \<exists>x0 x1 x2 x3 x4 x5 x6 x7 x8 x9 x10 x11 x12 x13 x14 x15.
     x = [x0,x1,x2,x3,x4,x5,x6,x7,x8,x9,x10,x11,x12,x13,x14,x15]"
  by (auto simp add: eval_nat_numeral length_Suc_conv)

lemma boxed_action:
  assumes "length x = 16"
  shows "apply_circuit (boxed_circuit ''1011101011010101'') (x @ [y])
         = Some (x @ [y \<noteq> (x = pattern_bits ''1011101011010101'')])"
proof -
  from length_16_cases [OF assms] obtain x0 x1 x2 x3 x4 x5 x6 x7 x8 x9 x10 x11 x12 x13 x14 x15
    where x: "x = [x0,x1,x2,x3,x4,x5,x6,x7,x8,x9,x10,x11,x12,x13,x14,x15]"
    by (elim exE)
  let ?gnm = "''Uf_condor''" and ?lb = "''$U_f$''"
  let ?s = "[x0,x1,x2,x3,x4,x5,x6,x7,x8,x9,x10,x11,x12,x13,x14,x15,y]"
  let ?t = "[x0,x1,x2,x3,x4,x5,x6,x7,x8,x9,x10,x11,x12,x13,x14,x15,
             y \<noteq> (x0 \<and> \<not> x1 \<and> x2 \<and> x3 \<and> x4 \<and> \<not> x5 \<and> x6 \<and> \<not> x7 \<and> x8 \<and> x9 \<and> \<not> x10 \<and> x11 \<and> \<not> x12 \<and> x13 \<and> \<not> x14 \<and> x15)]"
  have g: "gather [0..<17] ?s = ?s"
    by (simp add: gather_def upt17)
  have a: "op_action (Gate ?gnm ?lb 17 (pattern_match_sequence 16 [1, 5, 7, 10, 12, 14])) ?s = ?t"
    by (simp only: gate_action internal_action)
  have c: "scatter [0..<17] ?t ?s = ?t"
    by (simp add: upt17)
  have "instruction_action
          (Gate ?gnm ?lb 17 (pattern_match_sequence 16 [1, 5, 7, 10, 12, 14]), [0..<17]) ?s = ?t"
    by (simp only: instruction_action_def fst_conv snd_conv g a c)
  moreover have "(x = pattern_bits ''1011101011010101'')
       = (x0 \<and> \<not> x1 \<and> x2 \<and> x3 \<and> x4 \<and> \<not> x5 \<and> x6 \<and> \<not> x7 \<and> x8 \<and> x9 \<and> \<not> x10 \<and> x11 \<and> \<not> x12 \<and> x13 \<and> \<not> x14 \<and> x15)"
    by (simp add: x pattern_bits_def)
  ultimately show ?thesis
    by (simp add: apply_circuit_def boxed_circuit_def zero_positions_secret x)
qed

lemma split_state:
  "length (s :: bool list) = 17 \<Longrightarrow> s = take 16 s @ [s ! 16] \<and> length (take 16 s) = 16"
  by (simp add: take_Suc_conv_app_nth [symmetric])

subsection \<open>The returned circuit\<close>

lemma build_returns:
  "\<exists>h'. build_Uf_condor condor_oracle h = Inr (Suc (length h), h') \<and>
        h' ! Suc (length h) = boxed_circuit ''1011101011010101''"
  unfolding build_Uf_condor_condor
  by (rule exI, rule conjI, rule refl, rule returned_circuit)

lemma boxed_action_state:
  assumes "length s = 17"
  shows "apply_circuit (boxed_circuit ''1011101011010101'') s =
           Some (take 16 s @ [s ! 16 \<noteq> (take 16 s = pattern_bits ''1011101011010101'')])"
proof -
  from assms have s: "s = take 16 s @ [s ! 16]" and x: "length (take 16 s) = 16"
    using split_state by blast+
  from boxed_action [OF x, of "s ! 16"] s show ?thesis
    by simp
qed

lemma internal_returns:
  "\<exists>h'. build_internal_condor_oracle condor_oracle h = Inr (length h, h') \<and>
        h' ! length h = internal_circuit ''1011101011010101''"
  unfolding build_internal_condor
  by (rule exI, rule conjI, rule refl, rule nth_append_length)

lemma internal_data:
  "data (internal_circuit ''1011101011010101'') =
     [(XGate, [1]), (XGate, [5]), (XGate, [7]), (XGate, [10]), (XGate, [12]), (XGate, [14]),
      (MCXGate 16, [0, 1, 2, 3, 4, 5, 6, 7, 8, 9, 10, 11, 12, 13, 14, 15, 16]),
      (XGate, [1]), (XGate, [5]), (XGate, [7]), (XGate, [10]), (XGate, [12]), (XGate, [14])]"
  by (simp add: internal_circuit_def zero_positions_secret pattern_match_sequence_def upt16)

lemma zero_beyond_wires:
  "list_all (\<lambda>i. i < 17) (zero_positions s) = (\<not> (\<exists>i. 17 \<le> i \<and> i < length s \<and> s ! i = CHR ''0''))"
proof -
  have "list_all (\<lambda>i. i < 17) (zero_positions s)
        = (\<forall>i. i < length s \<and> s ! i = CHR ''0'' \<longrightarrow> i < 17)"
    by (auto simp add: zero_positions_def list_all_iff)
  also have "\<dots> = (\<not> (\<exists>i. 17 \<le> i \<and> i < length s \<and> s ! i = CHR ''0''))"
    by (meson leD leI)
  finally show ?thesis .
qed

section \<open>The claims\<close>

text \<open>
  C1. For every 16-bit configuration vector \<open>x\<close> and every ancilla value \<open>y\<close>, the
  circuit that \<open>build_Uf_condor\<close> returns (from any store) takes the basis state
  \<open>(x, y)\<close> to \<open>(x, y XOR [x = secret])\<close>: the ancilla is flipped exactly when
  \<open>x\<close> is the secret pattern.
\<close>

theorem oracle_marks_secret:
  assumes "length x = 16"
  shows "\<exists>wrapper h'.
           build_Uf_condor condor_oracle h = Inr (wrapper, h') \<and>
           apply_circuit (h' ! wrapper) (x @ [y]) =
             Some (x @ [y \<noteq> (x = pattern_bits (SECRET_BITSTRING condor_oracle))])"
proof -
  obtain h' where b: "build_Uf_condor condor_oracle h = Inr (Suc (length h), h')"
    and w: "h' ! Suc (length h) = boxed_circuit ''1011101011010101''"
    using build_returns by blast
  have "apply_circuit (h' ! Suc (length h)) (x @ [y]) =
             Some (x @ [y \<noteq> (x = pattern_bits (SECRET_BITSTRING condor_oracle))])"
    unfolding w secret_of_condor_oracle using assms by (rule boxed_action)
  with b show ?thesis
    by (intro exI conjI)
qed

text \<open>The theorem of C1 at the secret itself with ancilla 0: the ancilla becomes 1.\<close>

theorem oracle_marks_secret_witness:
  "length (pattern_bits ''1011101011010101'') = 16 \<and>
   (\<exists>wrapper h'.
      build_Uf_condor condor_oracle [] = Inr (wrapper, h') \<and>
      apply_circuit (h' ! wrapper) (pattern_bits ''1011101011010101'' @ [False]) =
        Some (pattern_bits ''1011101011010101'' @ [True]))"
proof -
  have l: "length (pattern_bits ''1011101011010101'') = 16"
    by (simp add: pattern_bits_def)
  from oracle_marks_secret [OF l, of "[]" False] l show ?thesis
    by (simp add: secret_of_condor_oracle)
qed

text \<open>
  C2. The oracle is self-inverse: on every basis state of the 17 wires, applying the
  returned circuit twice gives the state back.
\<close>

theorem oracle_self_inverse:
  assumes "length s = 17"
  shows "\<exists>wrapper h' s'.
           build_Uf_condor condor_oracle h = Inr (wrapper, h') \<and>
           apply_circuit (h' ! wrapper) s = Some s' \<and>
           apply_circuit (h' ! wrapper) s' = Some s"
proof -
  obtain h' where b: "build_Uf_condor condor_oracle h = Inr (Suc (length h), h')"
    and w: "h' ! Suc (length h) = boxed_circuit ''1011101011010101''"
    using build_returns by blast
  let ?x = "take 16 s" and ?y = "s ! 16"
  let ?b = "?x = pattern_bits ''1011101011010101''"
  let ?s' = "?x @ [?y \<noteq> ?b]"
  from assms have s: "s = ?x @ [?y]" and x: "length ?x = 16"
    using split_state by blast+
  have 1: "apply_circuit (h' ! Suc (length h)) s = Some ?s'"
    unfolding w using assms by (rule boxed_action_state)
  have "apply_circuit (h' ! Suc (length h)) ?s' = Some (?x @ [(?y \<noteq> ?b) \<noteq> ?b])"
    unfolding w using x by (rule boxed_action)
  moreover have "((?y \<noteq> ?b) \<noteq> ?b) = ?y"
    by blast
  ultimately have 2: "apply_circuit (h' ! Suc (length h)) ?s' = Some s"
    using s by simp
  from b 1 2 show ?thesis
    by (intro exI conjI)
qed

text \<open>The theorem of C2 at the state that holds the secret and ancilla 0.\<close>

theorem oracle_self_inverse_witness:
  "length (pattern_bits ''10111010110101010'') = 17 \<and>
   (\<exists>wrapper h' s'.
      build_Uf_condor condor_oracle [] = Inr (wrapper, h') \<and>
      apply_circuit (h' ! wrapper) (pattern_bits ''10111010110101010'') = Some s' \<and>
      apply_circuit (h' ! wrapper) s' = Some (pattern_bits ''10111010110101010''))"
proof -
  have l: "length (pattern_bits ''10111010110101010'') = 17"
    by (simp add: pattern_bits_def)
  from oracle_self_inverse [OF l, of "[]"] l show ?thesis
    by (intro conjI)
qed

text \<open>
  C3. On every basis state the returned circuit leaves the 16 input wires (indices 0 to
  15) as they were; the result differs from the input at most on wire 16, the ancilla.
\<close>

theorem oracle_keeps_input_wires:
  assumes "length s = 17"
  shows "\<exists>wrapper h' s'.
           build_Uf_condor condor_oracle h = Inr (wrapper, h') \<and>
           apply_circuit (h' ! wrapper) s = Some s' \<and>
           length s' = 17 \<and> take 16 s' = take 16 s"
proof -
  obtain h' where b: "build_Uf_condor condor_oracle h = Inr (Suc (length h), h')"
    and w: "h' ! Suc (length h) = boxed_circuit ''1011101011010101''"
    using build_returns by blast
  let ?x = "take 16 s" and ?y = "s ! 16"
  let ?s' = "?x @ [?y \<noteq> (?x = pattern_bits ''1011101011010101'')]"
  have 1: "apply_circuit (h' ! Suc (length h)) s = Some ?s'"
    unfolding w using assms by (rule boxed_action_state)
  have 2: "length ?s' = 17" and 3: "take 16 ?s' = take 16 s"
    using assms by simp_all
  from b 1 2 3 show ?thesis
    by (intro exI conjI)
qed

text \<open>The theorem of C3 at the state that holds the secret and ancilla 1.\<close>

theorem oracle_keeps_input_wires_witness:
  "length (pattern_bits ''10111010110101011'') = 17 \<and>
   (\<exists>wrapper h' s'.
      build_Uf_condor condor_oracle [] = Inr (wrapper, h') \<and>
      apply_circuit (h' ! wrapper) (pattern_bits ''10111010110101011'') = Some s' \<and>
      length s' = 17 \<and> take 16 s' = take 16 (pattern_bits ''10111010110101011''))"
proof -
  have l: "length (pattern_bits ''10111010110101011'') = 17"
    by (simp add: pattern_bits_def)
  from oracle_keeps_input_wires [OF l, of "[]"] l show ?thesis
    by (intro conjI)
qed

text \<open>
  C4. The three runs of the end-to-end scenario: the secret with ancilla 0 gives ancilla 1;
  the secret with its last bit flipped and ancilla 0 gives ancilla 0; the complement of
  the secret with ancilla 1 gives ancilla 1.
\<close>

theorem end_to_end_scenario:
  "\<exists>wrapper h'.
     build_Uf_condor condor_oracle h = Inr (wrapper, h') \<and>
     apply_circuit (h' ! wrapper) (pattern_bits ''1011101011010101'' @ [False]) =
       Some (pattern_bits ''1011101011010101'' @ [True]) \<and>
     apply_circuit (h' ! wrapper) (pattern_bits ''1011101011010100'' @ [False]) =
       Some (pattern_bits ''1011101011010100'' @ [False]) \<and>
     apply_circuit (h' ! wrapper) (pattern_bits ''0100010100101010'' @ [True]) =
       Some (pattern_bits ''0100010100101010'' @ [True])"
proof -
  obtain h' where b: "build_Uf_condor condor_oracle h = Inr (Suc (length h), h')"
    and w: "h' ! Suc (length h) = boxed_circuit ''1011101011010101''"
    using build_returns by blast
  have 1: "apply_circuit (h' ! Suc (length h)) (pattern_bits ''1011101011010101'' @ [False]) =
       Some (pattern_bits ''1011101011010101'' @ [True])"
    unfolding w using boxed_action [of "pattern_bits ''1011101011010101''" False]
    by (simp add: pattern_bits_def)
  have 2: "apply_circuit (h' ! Suc (length h)) (pattern_bits ''1011101011010100'' @ [False]) =
       Some (pattern_bits ''1011101011010100'' @ [False])"
    unfolding w using boxed_action [of "pattern_bits ''1011101011010100''" False]
    by (simp add: pattern_bits_def)
  have 3: "apply_circuit (h' ! Suc (length h)) (pattern_bits ''0100010100101010'' @ [True]) =
       Some (pattern_bits ''0100010100101010'' @ [True])"
    unfolding w using boxed_action [of "pattern_bits ''0100010100101010''" True]
    by (simp add: pattern_bits_def)
  from b 1 2 3 show ?thesis
    by (intro exI conjI)
qed

text \<open>
  C5. The gate sequence of the internal circuit is exactly: a complement gate on each
  wire whose pattern character is \<open>0\<close> (wires 1, 5, 7, 10, 12, 14, in this order), one
  controlled complement with the 16 input wires as controls and the ancilla as target,
  and the same complement gates again; there is no other gate.
\<close>

theorem internal_gate_sequence:
  "\<exists>internal h'.
     build_internal_condor_oracle condor_oracle h = Inr (internal, h') \<and>
     data (h' ! internal) =
       map (\<lambda>i. (XGate, [i]))
         (filter (\<lambda>i. SECRET_BITSTRING condor_oracle ! i = CHR ''0'') [0..<16]) @
       [(MCXGate 16, [0..<16] @ [16])] @
       map (\<lambda>i. (XGate, [i]))
         (filter (\<lambda>i. SECRET_BITSTRING condor_oracle ! i = CHR ''0'') [0..<16]) \<and>
     data (h' ! internal) =
       [(XGate, [1]), (XGate, [5]), (XGate, [7]), (XGate, [10]), (XGate, [12]), (XGate, [14]),
        (MCXGate 16, [0, 1, 2, 3, 4, 5, 6, 7, 8, 9, 10, 11, 12, 13, 14, 15, 16]),
        (XGate, [1]), (XGate, [5]), (XGate, [7]), (XGate, [10]), (XGate, [12]), (XGate, [14])]"
proof -
  obtain h' where b: "build_internal_condor_oracle condor_oracle h = Inr (length h, h')"
    and c: "h' ! length h = internal_circuit ''1011101011010101''"
    using internal_returns by blast
  have z: "filter (\<lambda>i. SECRET_BITSTRING condor_oracle ! i = CHR ''0'') [0..<16]
           = zero_positions ''1011101011010101''"
    by (simp add: secret_of_condor_oracle zero_positions_secret upt16)
  have 1: "data (h' ! length h) =
       map (\<lambda>i. (XGate, [i]))
         (filter (\<lambda>i. SECRET_BITSTRING condor_oracle ! i = CHR ''0'') [0..<16]) @
       [(MCXGate 16, [0..<16] @ [16])] @
       map (\<lambda>i. (XGate, [i]))
         (filter (\<lambda>i. SECRET_BITSTRING condor_oracle ! i = CHR ''0'') [0..<16])"
    unfolding c z by (simp add: internal_circuit_def pattern_match_sequence_def)
  have 2: "data (h' ! length h) =
       [(XGate, [1]), (XGate, [5]), (XGate, [7]), (XGate, [10]), (XGate, [12]), (XGate, [14]),
        (MCXGate 16, [0, 1, 2, 3, 4, 5, 6, 7, 8, 9, 10, 11, 12, 13, 14, 15, 16]),
        (XGate, [1]), (XGate, [5]), (XGate, [7]), (XGate, [10]), (XGate, [12]), (XGate, [14])]"
    unfolding c by (rule internal_data)
  from b 1 2 show ?thesis
    by (intro exI conjI)
qed

text \<open>
  Against C6 as stated: a pattern of 18 characters with a \<open>0\<close> at index 17 is
  malformed, loading the module with it does not fail, and the failure comes when
  \<open>build_Uf_condor\<close> is called.
\<close>

theorem malformed_secret_fails_at_call:
  "length ''101110101101010110'' \<noteq> 16 \<and>
   load_module ''101110101101010110'' =
     Inr \<lparr>N_CONFIG_BITS = 16, SECRET_BITSTRING = ''101110101101010110''\<rparr> \<and>
   build_Uf_condor \<lparr>N_CONFIG_BITS = 16, SECRET_BITSTRING = ''101110101101010110''\<rparr> [] =
     Inl CircuitError"
  by (simp add: load_module_def build_Uf_condor_eval zero_positions_def upt_rec)

text \<open>
  C6, amended. The module does not validate the pattern: loading succeeds for every
  pattern, malformed or not. \<open>build_Uf_condor\<close> raises, at call time, exactly when
  the pattern has a \<open>0\<close> at an index of 17 or more (a wire the circuit does not have);
  with every other pattern it returns a circuit.
\<close>

theorem secret_is_not_validated:
  "load_module s = Inr \<lparr>N_CONFIG_BITS = 16, SECRET_BITSTRING = s\<rparr> \<and>
   (build_Uf_condor \<lparr>N_CONFIG_BITS = 16, SECRET_BITSTRING = s\<rparr> h = Inl CircuitError)
     = (\<exists>i. 17 \<le> i \<and> i < length s \<and> s ! i = CHR ''0'') \<and>
   (\<exists>wrapper h'. build_Uf_condor \<lparr>N_CONFIG_BITS = 16, SECRET_BITSTRING = s\<rparr> h = Inr (wrapper, h'))
     = (\<not> (\<exists>i. 17 \<le> i \<and> i < length s \<and> s ! i = CHR ''0''))"
  unfolding build_Uf_condor_eval zero_beyond_wires
  by (auto simp add: load_module_def)

text \<open>
  The theorem of C6 at a pattern that is too short and holds a symbol that is not binary:
  the module loads and the builder returns a circuit.
\<close>

theorem secret_is_not_validated_witness:
  "load_module ''1011101011010x'' =
     Inr \<lparr>N_CONFIG_BITS = 16, SECRET_BITSTRING = ''1011101011010x''\<rparr> \<and>
   (\<exists>wrapper h'.
      build_Uf_condor \<lparr>N_CONFIG_BITS = 16, SECRET_BITSTRING = ''1011101011010x''\<rparr> [] =
        Inr (wrapper, h'))"
proof -
  have "\<not> (\<exists>i. 17 \<le> i \<and> i < length ''1011101011010x'' \<and> ''1011101011010x'' ! i = CHR ''0'')"
    by simp
  with secret_is_not_validated [of "''1011101011010x''" "[]"] show ?thesis
    by simp
qed

text \<open>
  C7. The returned circuit has \<open>N_CONFIG_BITS + 1 = 17\<close> wires, and \<open>N_CONFIG_BITS\<close>
  is 16.
\<close>

theorem circuit_width:
  "\<exists>wrapper h'.
     build_Uf_condor condor_oracle h = Inr (wrapper, h') \<and>
     num_qubits (h' ! wrapper) = N_CONFIG_BITS condor_oracle + 1 \<and>
     num_qubits (h' ! wrapper) = 17 \<and>
     N_CONFIG_BITS condor_oracle = 16"
proof -
  obtain h' where b: "build_Uf_condor condor_oracle h = Inr (Suc (length h), h')"
    and w: "h' ! Suc (length h) = boxed_circuit ''1011101011010101''"
    using build_returns by blast
  have 1: "num_qubits (h' ! Suc (length h)) = N_CONFIG_BITS condor_oracle + 1"
    and 2: "num_qubits (h' ! Suc (length h)) = 17"
    and 3: "N_CONFIG_BITS condor_oracle = 16"
    unfolding w by (simp_all add: boxed_circuit_def condor_oracle_def)
  from b 1 2 3 show ?thesis
    by (intro exI conjI)
qed

text \<open>
  C8. The returned circuit holds exactly one instruction: a custom gate, named
  \<open>Uf_condor\<close> and labelled, applied to the 17 wires in order.
\<close>

theorem one_boxed_gate:
  "\<exists>wrapper h' defn.
     build_Uf_condor condor_oracle h = Inr (wrapper, h') \<and>
     data (h' ! wrapper) =
       [(Gate ''Uf_condor'' ''$U_f$'' 17 defn,
         [0, 1, 2, 3, 4, 5, 6, 7, 8, 9, 10, 11, 12, 13, 14, 15, 16])] \<and>
     length (data (h' ! wrapper)) = 1"
proof -
  obtain h' where b: "build_Uf_condor condor_oracle h = Inr (Suc (length h), h')"
    and w: "h' ! Suc (length h) = boxed_circuit ''1011101011010101''"
    using build_returns by blast
  let ?defn = "pattern_match_sequence 16 (zero_positions ''1011101011010101'')"
  have 1: "data (h' ! Suc (length h)) =
       [(Gate ''Uf_condor'' ''$U_f$'' 17 ?defn,
         [0, 1, 2, 3, 4, 5, 6, 7, 8, 9, 10, 11, 12, 13, 14, 15, 16])]"
    and 2: "length (data (h' ! Suc (length h))) = 1"
    unfolding w by (simp_all add: boxed_circuit_def upt17)
  from b 1 2 show ?thesis
    by (intro exI conjI)
qed

text \<open>
  C9. Two calls, one after the other or from unrelated stores, return circuits with the
  same action on basis states. Each call allocates two objects of its own, its internal
  circuit and its wrapper, at the end of the store, and returns the reference of the
  wrapper: the reference denoted no object before the call, the results of successive
  calls are different objects, the gate of a wrapper holds the instructions of the
  internal circuit of the same call, and a call leaves every object that existed before
  it, the objects of an earlier call included, as it was.
\<close>

theorem calls_are_independent:
  "\<exists>r1 h1 r2 h2 r3 k3 i1 w1 i2 w2 i3 w3.
     build_Uf_condor condor_oracle h = Inr (r1, h1) \<and>
     build_Uf_condor condor_oracle h1 = Inr (r2, h2) \<and>
     build_Uf_condor condor_oracle k = Inr (r3, k3) \<and>
     length h \<le> r1 \<and> r1 < length h1 \<and> length h1 \<le> r2 \<and> r2 < length h2 \<and> r1 \<noteq> r2 \<and>
     take (length h) h1 = h \<and> take (length h1) h2 = h1 \<and>
     h2 ! r1 = h1 ! r1 \<and>
     apply_circuit (h2 ! r2) = apply_circuit (h2 ! r1) \<and>
     apply_circuit (k3 ! r3) = apply_circuit (h1 ! r1) \<and>
     h1 = h @ [i1, w1] \<and> h2 = h1 @ [i2, w2] \<and> k3 = k @ [i3, w3] \<and>
     r1 = Suc (length h) \<and> r2 = Suc (length h1) \<and> r3 = Suc (length k) \<and>
     build_internal_condor_oracle condor_oracle h = Inr (length h, h @ [i1]) \<and>
     build_internal_condor_oracle condor_oracle h1 = Inr (length h1, h1 @ [i2]) \<and>
     build_internal_condor_oracle condor_oracle k = Inr (length k, k @ [i3]) \<and>
     w1 = \<lparr>num_qubits = 17, name = ''Uf_condor'',
           data = [(Gate ''Uf_condor'' ''$U_f$'' 17 (data i1), [0..<17])]\<rparr> \<and>
     w2 = \<lparr>num_qubits = 17, name = ''Uf_condor'',
           data = [(Gate ''Uf_condor'' ''$U_f$'' 17 (data i2), [0..<17])]\<rparr> \<and>
     w3 = \<lparr>num_qubits = 17, name = ''Uf_condor'',
           data = [(Gate ''Uf_condor'' ''$U_f$'' 17 (data i3), [0..<17])]\<rparr> \<and>
     h2 ! length h = i1 \<and> h2 ! Suc (length h) = w1"
proof -
  let ?i = "internal_circuit ''1011101011010101''" and ?w = "boxed_circuit ''1011101011010101''"
  let ?h1 = "h @ [?i, ?w]"
  let ?h2 = "?h1 @ [?i, ?w]"
  let ?k3 = "k @ [?i, ?w]"
  have a: "build_Uf_condor condor_oracle h = Inr (Suc (length h), ?h1)"
    and b: "build_Uf_condor condor_oracle ?h1 = Inr (Suc (length ?h1), ?h2)"
    and c: "build_Uf_condor condor_oracle k = Inr (Suc (length k), ?k3)"
    by (rule build_Uf_condor_condor)+
  have w1: "?h1 ! Suc (length h) = ?w" and w2: "?h2 ! Suc (length ?h1) = ?w"
    and w3: "?k3 ! Suc (length k) = ?w"
    by (rule returned_circuit)+
  have w12: "?h2 ! Suc (length h) = ?w"
    by (simp add: nth_append)
  have fresh: "length h \<le> Suc (length h)" "Suc (length h) < length ?h1"
    "length ?h1 \<le> Suc (length ?h1)" "Suc (length ?h1) < length ?h2"
    "Suc (length h) \<noteq> Suc (length ?h1)"
    by simp_all
  have frame: "take (length h) ?h1 = h" "take (length ?h1) ?h2 = ?h1"
    by simp_all
  have same: "?h2 ! Suc (length h) = ?h1 ! Suc (length h)"
    "apply_circuit (?h2 ! Suc (length ?h1)) = apply_circuit (?h2 ! Suc (length h))"
    "apply_circuit (?k3 ! Suc (length k)) = apply_circuit (?h1 ! Suc (length h))"
    unfolding w1 w2 w3 w12 by (rule refl)+
  have own: "?h1 = h @ [?i, ?w]" "?h2 = ?h1 @ [?i, ?w]" "?k3 = k @ [?i, ?w]"
    "Suc (length h) = Suc (length h)" "Suc (length ?h1) = Suc (length ?h1)"
    "Suc (length k) = Suc (length k)"
    by (rule refl)+
  have int: "build_internal_condor_oracle condor_oracle h = Inr (length h, h @ [?i])"
    "build_internal_condor_oracle condor_oracle ?h1 = Inr (length ?h1, ?h1 @ [?i])"
    "build_internal_condor_oracle condor_oracle k = Inr (length k, k @ [?i])"
    by (rule build_internal_condor)+
  have box: "?w = \<lparr>num_qubits = 17, name = ''Uf_condor'',
           data = [(Gate ''Uf_condor'' ''$U_f$'' 17 (data ?i), [0..<17])]\<rparr>"
    by (simp add: boxed_circuit_def internal_circuit_def)
  have kept: "?h2 ! length h = ?i" "?h2 ! Suc (length h) = ?w"
    by (simp_all add: nth_append)
  from a b c fresh frame same own int box box box kept show ?thesis
    by (intro exI conjI)
qed

text \<open>
  C10. The pattern of the module has 16 characters, each \<open>0\<close> or \<open>1\<close>; with it
  \<open>build_Uf_condor\<close> returns, from every store and without raising, a reference to an
  object of the resulting store: the 17-wire circuit that holds the one boxed gate made
  from the internal circuit. The internal construction returns a 17-wire circuit too,
  and every gate it appended addresses wires in the range 0 to 16 only.
\<close>

theorem build_is_total:
  "load_module ''1011101011010101'' = Inr condor_oracle \<and>
   length (SECRET_BITSTRING condor_oracle) = 16 \<and>
   list_all (\<lambda>b. b = CHR ''0'' \<or> b = CHR ''1'') (SECRET_BITSTRING condor_oracle) \<and>
   (\<exists>wrapper h' internal hi.
      build_Uf_condor condor_oracle h = Inr (wrapper, h') \<and>
      wrapper < length h' \<and>
      h' ! wrapper =
        \<lparr>num_qubits = 17, name = ''Uf_condor'',
         data = [(Gate ''Uf_condor'' ''$U_f$'' 17 (data (hi ! internal)), [0..<17])]\<rparr> \<and>
      build_internal_condor_oracle condor_oracle h = Inr (internal, hi) \<and>
      internal < length hi \<and>
      num_qubits (hi ! internal) = 17 \<and>
      data (hi ! internal) \<noteq> [] \<and>
      list_all (\<lambda>(gate, qargs). list_all (\<lambda>q. q \<le> 16) qargs) (data (hi ! internal)))"
proof -
  let ?i = "internal_circuit ''1011101011010101''" and ?w = "boxed_circuit ''1011101011010101''"
  let ?h' = "h @ [?i, ?w]" and ?hi = "h @ [?i]"
  have 1: "load_module ''1011101011010101'' = Inr condor_oracle"
    and 2: "length (SECRET_BITSTRING condor_oracle) = 16"
    and 3: "list_all (\<lambda>b. b = CHR ''0'' \<or> b = CHR ''1'') (SECRET_BITSTRING condor_oracle)"
    by (simp_all add: load_module_def condor_oracle_def)
  have a: "build_Uf_condor condor_oracle h = Inr (Suc (length h), ?h')"
    by (rule build_Uf_condor_condor)
  have b: "build_internal_condor_oracle condor_oracle h = Inr (length h, ?hi)"
    by (rule build_internal_condor)
  have i: "?hi ! length h = ?i"
    by (rule nth_append_length)
  have w: "?h' ! Suc (length h) = ?w"
    by (rule returned_circuit)
  have lw: "Suc (length h) < length ?h'" and li: "length h < length ?hi"
    by simp_all
  have box: "?h' ! Suc (length h) =
        \<lparr>num_qubits = 17, name = ''Uf_condor'',
         data = [(Gate ''Uf_condor'' ''$U_f$'' 17 (data (?hi ! length h)), [0..<17])]\<rparr>"
    unfolding w i by (simp add: boxed_circuit_def internal_circuit_def)
  have n: "num_qubits (?hi ! length h) = 17"
    unfolding i by (simp add: internal_circuit_def)
  have ne: "data (?hi ! length h) \<noteq> []"
    unfolding i internal_data by simp
  have r: "list_all (\<lambda>(gate, qargs). list_all (\<lambda>q. q \<le> 16) qargs) (data (?hi ! length h))"
    unfolding i internal_data by simp
  from a lw box b li n ne r have 4: "\<exists>wrapper h' internal hi.
      build_Uf_condor condor_oracle h = Inr (wrapper, h') \<and>
      wrapper < length h' \<and>
      h' ! wrapper =
        \<lparr>num_qubits = 17, name = ''Uf_condor'',
         data = [(Gate ''Uf_condor'' ''$U_f$'' 17 (data (hi ! internal)), [0..<17])]\<rparr> \<and>
      build_internal_condor_oracle condor_oracle h = Inr (internal, hi) \<and>
      internal < length hi \<and>
      num_qubits (hi ! internal) = 17 \<and>
      data (hi ! internal) \<noteq> [] \<and>
      list_all (\<lambda>(gate, qargs). list_all (\<lambda>q. q \<le> 16) qargs) (data (hi ! internal))"
    by (intro exI conjI)
  from 1 2 3 4 show ?thesis
    by (intro conjI)
qed

end
